theory Spec2Isabelle
  imports Main "HOL-Library.Word"
begin

section \<open>Data model: the Mongoose schemas of server.js\<close>

text \<open>
  An ObjectId is a 12-byte value; the model reads it as a number. A Buffer is a list of
  bytes. A JavaScript Date is a number of milliseconds since the epoch (UTC). A string is
  the list of its code units. The counters are JavaScript Numbers: \<open>+= 1\<close> is exact on
  them below \<open>2^53\<close>, the range the model covers with \<open>nat\<close>.
\<close>

type_synonym objectId = nat
type_synonym bytes = "8 word list"
type_synonym instant = int

text \<open>userSchema (server.js, lines 18-23).\<close>

record user =
  email :: string
  password :: string
  role :: string
  favorites :: "objectId list"

text \<open>videoSchema (lines 27-34), with the \<open>_id\<close> every document carries.\<close>

record video =
  vid :: objectId
  podcastName :: string
  category :: string
  filename :: string
  contentType :: string
  video :: bytes
  views :: nat

text \<open>statsSchema (lines 68-72) and its embedded history entries.\<close>

record historyEntry =
  date :: instant
  count :: nat

record stats =
  totalSignups :: nat
  totalViews :: nat
  signupHistory :: "historyEntry list"

text \<open>
  The database: the three collections. Only \<open>initializeStats\<close> creates a Stats document,
  and only when there is none, so the Stats collection is the document \<open>Stats.findOne()\<close>
  finds, or nothing.
\<close>

record db =
  users :: "user list"
  videos :: "video list"
  statsDoc :: "stats option"

text \<open>\<open>req.session.user\<close>: set by signup and login, extended by toggle-favorite.\<close>

record sessionUser =
  s_email :: string
  s_role :: string
  s_favorites :: "objectId list option"

type_synonym session = "sessionUser option"

text \<open>\<open>req.file\<close> as multer's memory storage leaves it.\<close>

record reqFile =
  originalname :: string
  mimetype :: string
  buffer :: bytes

section \<open>Responses\<close>

datatype jvalue = JId objectId | JStr string | JBuf bytes | JNum nat

type_synonym document = "(string \<times> jvalue) list"

datatype body =
    Message string
  | RoleBody string
  | FavoritesBody "objectId list"
  | SessionBody sessionUser
  | Docs "document list"
  | StatsBody "stats option"
  | Text string
  | Payload bytes
  | SentFile string
  | ErrorPage

text \<open>
  A response records what the handler passes to \<open>res.status\<close> (200 when it is not called),
  to \<open>res.contentType\<close> and to \<open>res.json\<close>, \<open>res.send\<close> or \<open>res.sendFile\<close>. \<open>ErrorPage\<close> is the
  page of Express's own error handler.
\<close>

record response =
  status :: nat
  ctype :: "string option"
  body :: body

text \<open>
  A handler either responds, or an exception leaves it (the homepage route has no
  \<open>try\<close>), and then no response is sent.
\<close>

datatype outcome = Responded response | Unhandled

definition reply :: "nat \<Rightarrow> body \<Rightarrow> outcome" where
  "reply st b = Responded \<lparr>status = st, ctype = None, body = b\<rparr>"

fun succeeded :: "outcome \<Rightarrow> bool" where
  "succeeded (Responded r) = (status r = 200)"
| "succeeded Unhandled = False"

fun notFound :: "outcome \<Rightarrow> bool" where
  "notFound (Responded r) = (status r = 404)"
| "notFound Unhandled = False"

section \<open>Input validation (lines 61-65)\<close>

text \<open>
  The class \<open>\s\<close> of a JavaScript regular expression, on the code units below 256: tab,
  line feed, vertical tab, form feed, carriage return, space, no-break space.
\<close>

definition isSpace :: "char \<Rightarrow> bool" where
  "isSpace c = (of_char c \<in> {9, 10, 11, 12, 13, 32, 160 :: nat})"

text \<open>\<open>[^\s@]+\<close>: one or more code units, none of them white space or \<open>@\<close>.\<close>

definition plainRun :: "string \<Rightarrow> bool" where
  "plainRun cs = (cs \<noteq> [] \<and> list_all (\<lambda>c. \<not> isSpace c \<and> c \<noteq> CHR ''@'') cs)"

text \<open>
  \<open>/^[^\s@]+@[^\s@]+\.[^\s@]+$/\<close>: the string splits at an \<open>@\<close> at index \<open>i\<close> and a dot at
  index \<open>j\<close> after it into three such runs.
\<close>

definition emailRegex_test :: "string \<Rightarrow> bool" where
  "emailRegex_test s =
     list_ex (\<lambda>i. list_ex (\<lambda>j.
        i < j \<and> s ! i = CHR ''@'' \<and> s ! j = CHR ''.''
        \<and> plainRun (take i s)
        \<and> plainRun (take (j - i - 1) (drop (i + 1) s))
        \<and> plainRun (drop (j + 1) s)) [0..<length s]) [0..<length s]"

definition passwordMinLength :: nat where
  "passwordMinLength = 6"

definition validateInput :: "string \<Rightarrow> string \<Rightarrow> bool" where
  "validateInput em pw = (emailRegex_test em \<and> length pw \<ge> passwordMinLength)"

section \<open>Statistics (lines 77-82, 102-113)\<close>

definition initializeStats :: "db \<Rightarrow> db" where
  "initializeStats s =
     (case statsDoc s of
        None \<Rightarrow> s\<lparr>statsDoc := Some \<lparr>totalSignups = 0, totalViews = 0, signupHistory = []\<rparr>\<rparr>
      | Some _ \<Rightarrow> s)"

text \<open>The database of a fresh installation, once \<open>initializeStats\<close> has run.\<close>

definition emptyDb :: db where
  "emptyDb = \<lparr>users = [], videos = [], statsDoc = None\<rparr>"

definition initialDb :: db where
  "initialDb = initializeStats emptyDb"

text \<open>
  \<open>d.toISOString().split('T')[0]\<close> is the UTC calendar date of \<open>d\<close> as text. Two instants
  give the same text exactly when they fall on the same UTC day, so the model keeps the
  number of that day.
\<close>

definition isoDate :: "instant \<Rightarrow> int" where
  "isoDate t = t div 86400000"

text \<open>
  Lines 107-113. \<open>find\<close> yields the first entry of today's date, which is then
  incremented in place; without one, an entry dated by a second reading of the clock is
  pushed.
\<close>

definition updateHistory :: "int \<Rightarrow> instant \<Rightarrow> historyEntry list \<Rightarrow> historyEntry list" where
  "updateHistory today now h =
     (case List.extract (\<lambda>entry. isoDate (date entry) = today) h of
        Some (before, historyEntry, after) \<Rightarrow>
          before @ historyEntry\<lparr>count := count historyEntry + 1\<rparr> # after
      | None \<Rightarrow> h @ [\<lparr>date = now, count = 1\<rparr>])"

section \<open>The route handlers\<close>

text \<open>
  Every handler takes the database and, where it reads it, the session of the request, and
  returns them updated together with the outcome. What the handler obtains from outside
  the program is an argument: the result of \<open>bcrypt.hash\<close> and of \<open>bcrypt.compare\<close>, the
  readings of the clock by \<open>new Date()\<close>, the \<open>_id\<close> Mongoose generates for a new document.
  The database is taken to be reachable: a \<open>save\<close> fails only where a schema validator or
  a unique index rejects the document. GET /video/:id is modelled from the ObjectId that
  \<open>findById\<close> casts the route string to; POST /toggle-favorite/:videoId works on the route
  string itself, as lines 166-171 do.
\<close>

subsection \<open>POST /signup (lines 86-123)\<close>

text \<open>
  \<open>newUser.save()\<close>: the three fields are \<open>required\<close> (an absent or empty string is
  rejected) and \<open>email\<close> is \<open>unique\<close>.
\<close>

definition required :: "string \<Rightarrow> bool" where
  "required v = (v \<noteq> [])"

definition saveNewUser :: "user \<Rightarrow> user list \<Rightarrow> user list option" where
  "saveNewUser u us =
     (if required (email u) \<and> required (password u) \<and> required (role u)
         \<and> email u \<notin> set (map email us)
      then Some (us @ [u]) else None)"

text \<open>
  \<open>now1\<close> is the clock read at line 106, \<open>now2\<close> the clock read at line 112. When the
  Stats document is missing, line 103 throws after the user has been saved, and the
  \<open>catch\<close> answers 500.
\<close>

definition signup ::
  "string \<Rightarrow> string \<Rightarrow> string \<Rightarrow> string \<Rightarrow> instant \<Rightarrow> instant \<Rightarrow> session \<Rightarrow> db
     \<Rightarrow> db \<times> session \<times> outcome" where
  "signup em pw rl hashedPassword now1 now2 sess s =
     (if \<not> validateInput em pw
      then (s, sess, reply 400 (Message ''Invalid email or password (must be at least 6 characters).''))
      else
        case saveNewUser \<lparr>email = em, password = hashedPassword, role = rl, favorites = []\<rparr> (users s) of
          None \<Rightarrow>
            (s, sess, reply 500 (Message ''Error creating user. This email might already be registered.''))
        | Some us \<Rightarrow>
            (case statsDoc s of
               None \<Rightarrow>
                 (s\<lparr>users := us\<rparr>, sess,
                  reply 500 (Message ''Error creating user. This email might already be registered.''))
             | Some st \<Rightarrow>
                 (s\<lparr>users := us,
                    statsDoc := Some (st\<lparr>totalSignups := totalSignups st + 1,
                      signupHistory := updateHistory (isoDate now1) now2 (signupHistory st)\<rparr>)\<rparr>,
                  Some \<lparr>s_email = em, s_role = rl, s_favorites = None\<rparr>,
                  reply 200 (RoleBody rl))))"

subsection \<open>POST /login and GET /account (lines 126-151)\<close>

text \<open>\<open>matches\<close> is what \<open>bcrypt.compare\<close> answers for the user found.\<close>

definition login :: "string \<Rightarrow> bool \<Rightarrow> session \<Rightarrow> db \<Rightarrow> db \<times> session \<times> outcome" where
  "login em matches sess s =
     (case find (\<lambda>u. email u = em) (users s) of
        Some u \<Rightarrow>
          if matches
          then (s, Some \<lparr>s_email = em, s_role = role u, s_favorites = Some (favorites u)\<rparr>,
                reply 200 (RoleBody (role u)))
          else (s, sess, reply 400 (Message ''Invalid email or password.''))
      | None \<Rightarrow> (s, sess, reply 400 (Message ''Invalid email or password.'')))"

definition account :: "session \<Rightarrow> db \<Rightarrow> db \<times> session \<times> outcome" where
  "account sess s =
     (case sess of
        Some su \<Rightarrow> (s, sess, reply 200 (SessionBody su))
      | None \<Rightarrow> (s, sess, reply 401 (Text ''Not logged in'')))"

subsection \<open>POST /toggle-favorite/:videoId (lines 154-180)\<close>

text \<open>
  The route string against an ObjectId. A string casts to an ObjectId when it is 24 hex
  digits, of either case; the identifier is the number they denote.
\<close>

definition hexValue :: "char \<Rightarrow> nat option" where
  "hexValue c =
     (let n = (of_char c :: nat) in
      if 48 \<le> n \<and> n \<le> 57 then Some (n - 48)
      else if 97 \<le> n \<and> n \<le> 102 then Some (n - 87)
      else if 65 \<le> n \<and> n \<le> 70 then Some (n - 55)
      else None)"

definition isLowerHex :: "char \<Rightarrow> bool" where
  "isLowerHex c = ((48 \<le> (of_char c :: nat) \<and> (of_char c :: nat) \<le> 57)
                   \<or> (97 \<le> (of_char c :: nat) \<and> (of_char c :: nat) \<le> 102))"

definition hexNumber :: "string \<Rightarrow> nat" where
  "hexNumber cs = foldl (\<lambda>n c. 16 * n + (case hexValue c of Some d \<Rightarrow> d | None \<Rightarrow> 0)) 0 cs"

definition castObjectId :: "string \<Rightarrow> objectId option" where
  "castObjectId cs =
     (if length cs = 24 \<and> list_all (\<lambda>c. hexValue c \<noteq> None) cs then Some (hexNumber cs) else None)"

text \<open>
  \<open>id.toString()\<close> prints an ObjectId as its 24 hex digits in lower case: a string is that
  print exactly when it is 24 lower-case hex digits and denotes the identifier.
\<close>

definition printedAs :: "objectId \<Rightarrow> string \<Rightarrow> bool" where
  "printedAs i cs = (length cs = 24 \<and> list_all isLowerHex cs \<and> hexNumber cs = i)"

text \<open>
  Lines 166-172 on the favorites array. \<open>includes\<close> (line 166) and the filter (line 168)
  compare the route string with the print of each stored identifier; \<open>push\<close> (line 171)
  casts the route string, and throws when it does not cast.
\<close>

definition toggle :: "string \<Rightarrow> objectId list \<Rightarrow> objectId list option" where
  "toggle videoId favs =
     (if list_ex (\<lambda>i. printedAs i videoId) favs
      then Some (filter (\<lambda>i. \<not> printedAs i videoId) favs)
      else map_option (\<lambda>i. favs @ [i]) (castObjectId videoId))"

text \<open>
  \<open>User.findOne\<close> yields the first user of that email, or \<open>null\<close>; on \<open>null\<close>, line 166
  throws and the \<open>catch\<close> answers 500, as it does when \<open>push\<close> throws.
\<close>

definition toggleFavorite :: "string \<Rightarrow> session \<Rightarrow> db \<Rightarrow> db \<times> session \<times> outcome" where
  "toggleFavorite videoId sess s =
     (case sess of
        None \<Rightarrow> (s, sess, reply 401 (Message ''You need to be logged in to favorite videos.''))
      | Some su \<Rightarrow>
          (case List.extract (\<lambda>u. email u = s_email su) (users s) of
             None \<Rightarrow> (s, sess, reply 500 (Message ''Error updating favorites.''))
           | Some (before, u, after) \<Rightarrow>
               (case toggle videoId (favorites u) of
                  None \<Rightarrow> (s, sess, reply 500 (Message ''Error updating favorites.''))
                | Some favs \<Rightarrow>
                    (s\<lparr>users := before @ u\<lparr>favorites := favs\<rparr> # after\<rparr>,
                     Some (su\<lparr>s_favorites := Some favs\<rparr>),
                     reply 200 (FavoritesBody favs)))))"

subsection \<open>POST /upload (lines 183-206)\<close>

text \<open>
  The handler runs after multer: \<open>req.file\<close> is the file multer accepted, or nothing.
  \<open>newId\<close> is the \<open>_id\<close> of the new document; the index on \<open>_id\<close> is unique.
\<close>

definition upload :: "string \<Rightarrow> string \<Rightarrow> reqFile option \<Rightarrow> objectId \<Rightarrow> db \<Rightarrow> db \<times> outcome" where
  "upload name cat reqfile newId s =
     (case reqfile of
        None \<Rightarrow> (s, reply 400 (Message ''No file uploaded.''))
      | Some f \<Rightarrow>
          if newId \<in> set (map vid (videos s))
          then (s, reply 500 (Message ''Error saving file to database.''))
          else (s\<lparr>videos := videos s @
                  [\<lparr>vid = newId, podcastName = name, category = cat,
                    filename = originalname f, contentType = mimetype f,
                    video = buffer f, views = 0\<rparr>]\<rparr>,
                reply 200 (Message ''Upload successful!'')))"

subsection \<open>GET /videos and GET /videos/:category (lines 209-229)\<close>

text \<open>A stored video as the document MongoDB returns, and a projection of it.\<close>

definition videoDocument :: "video \<Rightarrow> document" where
  "videoDocument v =
     [(''_id'', JId (vid v)), (''podcastName'', JStr (podcastName v)),
      (''category'', JStr (category v)), (''filename'', JStr (filename v)),
      (''contentType'', JStr (contentType v)), (''video'', JBuf (video v)),
      (''views'', JNum (views v))]"

definition select :: "string list \<Rightarrow> document \<Rightarrow> document" where
  "select names d = filter (\<lambda>(k, v). k \<in> set names) d"

definition projection :: "string list" where
  "projection = [''filename'', ''podcastName'', ''_id'']"

definition getVideos :: "db \<Rightarrow> db \<times> outcome" where
  "getVideos s = (s, reply 200 (Docs (map (\<lambda>v. select projection (videoDocument v)) (videos s))))"

definition getVideosByCategory :: "string \<Rightarrow> db \<Rightarrow> db \<times> outcome" where
  "getVideosByCategory cat s =
     (s, reply 200 (Docs (map (\<lambda>v. select projection (videoDocument v))
                       (filter (\<lambda>v. category v = cat) (videos s)))))"

subsection \<open>GET /video/:id (lines 232-256)\<close>

text \<open>
  The view count is saved (line 243) before the Stats document is read (line 246): when
  that document is missing, line 247 throws and the \<open>catch\<close> answers 500 with the view
  already counted on the video.
\<close>

definition getVideo :: "objectId \<Rightarrow> db \<Rightarrow> db \<times> outcome" where
  "getVideo videoId s =
     (case List.extract (\<lambda>v. vid v = videoId) (videos s) of
        None \<Rightarrow> (s, Responded \<lparr>status = 404, ctype = None, body = Text ''Video not found.''\<rparr>)
      | Some (before, v, after) \<Rightarrow>
          let v1 = v\<lparr>views := views v + 1\<rparr>;
              s1 = s\<lparr>videos := before @ v1 # after\<rparr>
          in (case statsDoc s1 of
                None \<Rightarrow> (s1, reply 500 (Text ''Error retrieving video.''))
              | Some st \<Rightarrow>
                  (s1\<lparr>statsDoc := Some (st\<lparr>totalViews := totalViews st + 1\<rparr>)\<rparr>,
                   Responded \<lparr>status = 200, ctype = Some (contentType v1), body = Payload (video v1)\<rparr>)))"

subsection \<open>GET / and GET /stats (lines 55, 259-274)\<close>

text \<open>
  \<open>express.static('public')\<close> is mounted (line 55) before the routes: it answers a GET
  whose path names a file under \<open>public\<close> in the working directory, and \<open>/\<close> names its
  \<open>index.html\<close>. Of the routes here only GET / can be answered that way, and then the
  handler of lines 259-264 does not run. \<open>staticIndex\<close> says that this file is there;
  \<open>indexFile\<close> says that the file line 263 sends (\<open>public/index.html\<close> beside the script) is
  there. The handler has no \<open>try\<close>: without a Stats document line 261 throws. Without the
  file, \<open>sendFile\<close> fails after the view has been counted and Express answers 404.
\<close>

definition home :: "bool \<Rightarrow> bool \<Rightarrow> db \<Rightarrow> db \<times> outcome" where
  "home staticIndex indexFile s =
     (if staticIndex then (s, reply 200 (SentFile ''public/index.html''))
      else
        case statsDoc s of
          None \<Rightarrow> (s, Unhandled)
        | Some st \<Rightarrow>
            (s\<lparr>statsDoc := Some (st\<lparr>totalViews := totalViews st + 1\<rparr>)\<rparr>,
             if indexFile then reply 200 (SentFile ''public/index.html'') else reply 404 ErrorPage))"

definition getStats :: "db \<Rightarrow> db \<times> outcome" where
  "getStats s = (s, reply 200 (StatsBody (statsDoc s)))"

section \<open>Sequences of requests\<close>

datatype request =
    Signup string string string string instant instant
  | Login string bool
  | Account
  | ToggleFavorite string
  | Upload string string "reqFile option" objectId
  | GetVideos
  | GetVideosByCategory string
  | GetVideo objectId
  | Home bool bool
  | GetStats

fun handle :: "request \<Rightarrow> session \<Rightarrow> db \<Rightarrow> db \<times> session \<times> outcome" where
  "handle (Signup em pw rl hashedPassword now1 now2) sess s = signup em pw rl hashedPassword now1 now2 sess s"
| "handle (Login em matches) sess s = login em matches sess s"
| "handle Account sess s = account sess s"
| "handle (ToggleFavorite videoId) sess s = toggleFavorite videoId sess s"
| "handle (Upload name cat reqfile newId) sess s = (let (s1, out) = upload name cat reqfile newId s in (s1, sess, out))"
| "handle GetVideos sess s = (let (s1, out) = getVideos s in (s1, sess, out))"
| "handle (GetVideosByCategory cat) sess s = (let (s1, out) = getVideosByCategory cat s in (s1, sess, out))"
| "handle (GetVideo videoId) sess s = (let (s1, out) = getVideo videoId s in (s1, sess, out))"
| "handle (Home staticIndex indexFile) sess s = (let (s1, out) = home staticIndex indexFile s in (s1, sess, out))"
| "handle GetStats sess s = (let (s1, out) = getStats s in (s1, sess, out))"

text \<open>
  The session store belongs to the middleware: a request arrives with the session found
  for its client, whichever client that is. A call is a request with that session.
\<close>

type_synonym call = "session \<times> request"

definition dbAfter :: "call \<Rightarrow> db \<Rightarrow> db" where
  "dbAfter c s = fst (handle (snd c) (fst c) s)"

definition outcomeOf :: "call \<Rightarrow> db \<Rightarrow> outcome" where
  "outcomeOf c s = snd (snd (handle (snd c) (fst c) s))"

fun run :: "call list \<Rightarrow> db \<Rightarrow> db" where
  "run [] s = s"
| "run (c # cs) s = run cs (dbAfter c s)"

definition totalViewsOf :: "db \<Rightarrow> nat" where
  "totalViewsOf s = (case statsDoc s of None \<Rightarrow> 0 | Some st \<Rightarrow> totalViews st)"

definition sumOfVideoViews :: "db \<Rightarrow> nat" where
  "sumOfVideoViews s = sum_list (map views (videos s))"

text \<open>
  The clock along a run: \<open>t\<close> is the last reading so far; each signup reads it twice, and
  no reading is earlier than the one before it.
\<close>

fun clockOrdered :: "instant \<Rightarrow> call list \<Rightarrow> bool" where
  "clockOrdered t [] = True"
| "clockOrdered t ((sess, Signup em pw rl hashedPassword now1 now2) # cs) =
     (t \<le> now1 \<and> now1 \<le> now2 \<and> clockOrdered now2 cs)"
| "clockOrdered t (c # cs) = clockOrdered t cs"

fun lastReading :: "instant \<Rightarrow> call list \<Rightarrow> instant" where
  "lastReading t [] = t"
| "lastReading t ((sess, Signup em pw rl hashedPassword now1 now2) # cs) = lastReading now2 cs"
| "lastReading t (c # cs) = lastReading t cs"

text \<open>The dates of the histogram, and the invariant: no date twice, none in the future.\<close>

definition historyDates :: "db \<Rightarrow> int list" where
  "historyDates s =
     (case statsDoc s of None \<Rightarrow> [] | Some st \<Rightarrow> map (\<lambda>entry. isoDate (date entry)) (signupHistory st))"

definition onePerDate :: "db \<Rightarrow> bool" where
  "onePerDate s = distinct (historyDates s)"

definition historyInv :: "instant \<Rightarrow> db \<Rightarrow> bool" where
  "historyInv t s =
     (onePerDate s \<and>
      (case statsDoc s of None \<Rightarrow> True | Some st \<Rightarrow> list_all (\<lambda>entry. date entry \<le> t) (signupHistory st)))"

section \<open>GET /video/:id under concurrent requests\<close>

text \<open>
  An \<open>async\<close> handler runs up to its next \<open>await\<close> and resumes when the awaited database
  operation has been carried out; handlers of other requests run in between. The handler
  of lines 232-256 has four such operations: \<open>Video.findById\<close> (line 236), \<open>video.save()\<close>
  (line 243), \<open>Stats.findOne()\<close> (line 246) and \<open>stats.save()\<close> (line 248). A task is a
  request at one of them, holding the documents the handler has in memory. \<open>save\<close> writes
  the changed field of the in-memory document to the stored one.
\<close>

datatype task =
    AtFindById objectId
  | AtSaveVideo video
  | AtFindStats video
  | AtSaveStats video stats
  | Finished outcome

definition saveViews :: "video \<Rightarrow> video list \<Rightarrow> video list" where
  "saveViews v vs =
     (case List.extract (\<lambda>w. vid w = vid v) vs of
        None \<Rightarrow> vs
      | Some (before, w, after) \<Rightarrow> before @ w\<lparr>views := views v\<rparr> # after)"

fun advance :: "task \<Rightarrow> db \<Rightarrow> task \<times> db" where
  "advance (AtFindById videoId) s =
     (case find (\<lambda>v. vid v = videoId) (videos s) of
        None \<Rightarrow> (Finished (Responded \<lparr>status = 404, ctype = None, body = Text ''Video not found.''\<rparr>), s)
      | Some v \<Rightarrow> (AtSaveVideo (v\<lparr>views := views v + 1\<rparr>), s))"
| "advance (AtSaveVideo v) s = (AtFindStats v, s\<lparr>videos := saveViews v (videos s)\<rparr>)"
| "advance (AtFindStats v) s =
     (case statsDoc s of
        None \<Rightarrow> (Finished (reply 500 (Text ''Error retrieving video.'')), s)
      | Some st \<Rightarrow> (AtSaveStats v (st\<lparr>totalViews := totalViews st + 1\<rparr>), s))"
| "advance (AtSaveStats v st) s =
     (Finished (Responded \<lparr>status = 200, ctype = Some (contentType v), body = Payload (video v)\<rparr>),
      s\<lparr>statsDoc := map_option (\<lambda>stored. stored\<lparr>totalViews := totalViews st\<rparr>) (statsDoc s)\<rparr>)"
| "advance (Finished out) s = (Finished out, s)"

text \<open>A schedule names, step by step, the task whose awaited operation is carried out next.\<close>

fun interleave :: "nat list \<Rightarrow> task list \<Rightarrow> db \<Rightarrow> task list \<times> db" where
  "interleave [] ts s = (ts, s)"
| "interleave (k # ks) ts s =
     (if k < length ts
      then (let (t1, s1) = advance (ts ! k) s in interleave ks (ts[k := t1]) s1)
      else interleave ks ts s)"

definition viewsOfVideo :: "objectId \<Rightarrow> db \<Rightarrow> nat option" where
  "viewsOfVideo videoId s = map_option views (find (\<lambda>v. vid v = videoId) (videos s))"

section \<open>Observations\<close>

text \<open>The favorites of the user \<open>User.findOne({ email })\<close> finds, if there is one.\<close>

definition favoritesOf :: "string \<Rightarrow> db \<Rightarrow> objectId list option" where
  "favoritesOf em s = map_option favorites (find (\<lambda>u. email u = em) (users s))"

text \<open>\<open>k\<close> toggle requests of one client for one video, one after the other.\<close>

fun toggleTimes :: "nat \<Rightarrow> string \<Rightarrow> session \<Rightarrow> db \<Rightarrow> db \<times> session" where
  "toggleTimes 0 videoId sess s = (s, sess)"
| "toggleTimes (Suc k) videoId sess s =
     (case toggleFavorite videoId sess s of (s1, sess1, out) \<Rightarrow> toggleTimes k videoId sess1 s1)"

text \<open>The field names of the documents a listing returns.\<close>

definition fieldNames :: "outcome \<Rightarrow> string list list" where
  "fieldNames out =
     (case out of
        Responded r \<Rightarrow> (case body r of Docs ds \<Rightarrow> map (map fst) ds | _ \<Rightarrow> [])
      | Unhandled \<Rightarrow> [])"

text \<open>The histogram entries of a calendar date, and the signup counter.\<close>

definition entriesOn :: "int \<Rightarrow> db \<Rightarrow> historyEntry list" where
  "entriesOn d s =
     (case statsDoc s of
        None \<Rightarrow> []
      | Some st \<Rightarrow> filter (\<lambda>entry. isoDate (date entry) = d) (signupHistory st))"

definition historyOf :: "db \<Rightarrow> historyEntry list" where
  "historyOf s = (case statsDoc s of None \<Rightarrow> [] | Some st \<Rightarrow> signupHistory st)"

definition totalSignupsOf :: "db \<Rightarrow> nat" where
  "totalSignupsOf s = (case statsDoc s of None \<Rightarrow> 0 | Some st \<Rightarrow> totalSignups st)"

section \<open>Example data\<close>

text \<open>A database after one signup and one upload, and the session of that user.\<close>

definition exampleDb :: db where
  "exampleDb =
     \<lparr>users = [\<lparr>email = ''a@b.c'', password = ''h'', role = ''user'', favorites = []\<rparr>],
      videos = [\<lparr>vid = 1, podcastName = ''Show'', category = ''news'', filename = ''a.mp4'',
                 contentType = ''video/mp4'', video = [1, 2, 255], views = 0\<rparr>],
      statsDoc = Some \<lparr>totalSignups = 1, totalViews = 0, signupHistory = [\<lparr>date = 5, count = 1\<rparr>]\<rparr>\<rparr>"

definition exampleSession :: sessionUser where
  "exampleSession = \<lparr>s_email = ''a@b.c'', s_role = ''user'', s_favorites = None\<rparr>"

text \<open>A session whose user has no document in the collection.\<close>

definition strangerSession :: sessionUser where
  "strangerSession = \<lparr>s_email = ''x@y.z'', s_role = ''user'', s_favorites = None\<rparr>"

text \<open>
  Two signups, each with midnight between its two readings of the clock: the last
  millisecond of day 0 at line 106, the first of day 1 at line 112.
\<close>

definition midnightSignup :: call where
  "midnightSignup = (None, Signup ''a@b.c'' ''secret'' ''user'' ''h1'' 86399999 86400000)"

definition midnightSignupAgain :: call where
  "midnightSignupAgain = (None, Signup ''d@e.f'' ''secret'' ''user'' ''h2'' 86399999 86400000)"

text \<open>The identifier 10 as its print, and the same identifier in upper case.\<close>

definition printOfTen :: string where
  "printOfTen = ''00000000000000000000000a''"

definition upperCaseTen :: string where
  "upperCaseTen = ''00000000000000000000000A''"

text \<open>
  Two requests for one video, each \<open>findById\<close> carried out before either \<open>save\<close>.
\<close>

definition twoViewers :: "task list" where
  "twoViewers = [AtFindById 1, AtFindById 1]"

definition bothReadFirst :: "nat list" where
  "bothReadFirst = [0, 1, 0, 1, 0, 0, 1, 1]"

text \<open>
  The same two requests, one after the other on the video, each \<open>Stats.findOne()\<close>
  carried out before either \<open>stats.save()\<close>.
\<close>

definition bothReadStatsFirst :: "nat list" where
  "bothReadStatsFirst = [0, 0, 1, 1, 0, 1, 0, 1]"

section \<open>Lookups in a collection\<close>

lemma extract_absent: "x \<notin> set (map f xs) \<Longrightarrow> List.extract (\<lambda>y. f y = x) xs = None"
  by (auto simp: extract_None_iff)

lemma extract_first:
  "\<forall>y\<in>set ys. \<not> P y \<Longrightarrow> P x \<Longrightarrow> List.extract P (ys @ x # zs) = Some (ys, x, zs)"
  by (simp add: extract_Some_iff)

lemma find_first:
  "\<forall>y\<in>set ys. \<not> P y \<Longrightarrow> P x \<Longrightarrow> find P (ys @ x # zs) = Some x"
  by (induction ys) auto

lemma find_extract:
  "find P xs = Some x \<Longrightarrow> \<exists>ys zs. List.extract P xs = Some (ys, x, zs)"
proof (induction xs)
  case Nil
  then show ?case by simp
next
  case (Cons a xs)
  then show ?case
    by (cases "P a") (auto simp: extract_Cons_code)
qed

lemma find_None_extract: "find P xs = None \<Longrightarrow> List.extract P xs = None"
  by (simp add: find_None_iff extract_None_iff)

lemma saveNewUser_registered: "email u \<in> set (map email us) \<Longrightarrow> saveNewUser u us = None"
  by (simp add: saveNewUser_def)

section \<open>The Stats document\<close>

text \<open>No request removes the Stats document: every database reached from the initial one has it.\<close>

lemma statsDoc_kept: "statsDoc s \<noteq> None \<Longrightarrow> statsDoc (dbAfter c s) \<noteq> None"
proof (cases c)
  case (Pair sess r)
  assume "statsDoc s \<noteq> None"
  then show ?thesis
    by (cases r)
      (auto simp: Pair dbAfter_def signup_def login_def account_def toggleFavorite_def upload_def
        getVideos_def getVideosByCategory_def getVideo_def home_def getStats_def Let_def
        split: option.splits if_splits)
qed

lemma statsDoc_run: "statsDoc (run cs initialDb) \<noteq> None"
proof -
  have "statsDoc s \<noteq> None \<Longrightarrow> statsDoc (run cs s) \<noteq> None" for s
  proof (induction cs arbitrary: s)
    case Nil
    then show ?case by simp
  next
    case (Cons c cs)
    from Cons.IH [OF statsDoc_kept [OF Cons.prems]] show ?case
      by simp
  qed
  then show ?thesis
    by (simp add: initialDb_def initializeStats_def emptyDb_def)
qed

section \<open>Fetching a video\<close>

text \<open>
  C2. For an identifier that no stored video carries, GET /video/:id answers 404
  (not found) and returns the database as it was: the Stats document, every view counter
  and everything else are unchanged.
\<close>

theorem getVideo_unknown_id:
  assumes "videoId \<notin> set (map vid (videos s))"
  shows "getVideo videoId s =
           (s, Responded \<lparr>status = 404, ctype = None, body = Text ''Video not found.''\<rparr>)
         \<and> notFound (snd (getVideo videoId s))"
  using assms by (simp add: getVideo_def extract_absent)

theorem getVideo_unknown_id_witness:
  "7 \<notin> set (map vid (videos initialDb))
   \<and> notFound (snd (getVideo 7 initialDb)) \<and> fst (getVideo 7 initialDb) = initialDb"
  using getVideo_unknown_id [of 7 initialDb]
  by (simp add: initialDb_def initializeStats_def emptyDb_def)

text \<open>
  C3. In a database with its Stats document (every database reached from the initial one
  has it), an upload that succeeds, followed at once by
  GET /video/:id on the identifier the new document received, is answered 200 with exactly
  the content type and exactly the bytes that were uploaded.
\<close>

theorem upload_then_getVideo:
  assumes "statsDoc s \<noteq> None"
    and "upload name cat (Some f) newId s = (s1, out)"
    and "succeeded out"
  shows "snd (getVideo newId s1) =
           Responded \<lparr>status = 200, ctype = Some (mimetype f), body = Payload (buffer f)\<rparr>"
proof -
  let ?v = "\<lparr>vid = newId, podcastName = name, category = cat, filename = originalname f,
             contentType = mimetype f, video = buffer f, views = 0\<rparr>"
  from assms(2,3) have fresh: "newId \<notin> set (map vid (videos s))"
    by (auto simp: upload_def reply_def split: if_splits)
  with assms(2) have s1: "s1 = s\<lparr>videos := videos s @ [?v]\<rparr>"
    by (auto simp: upload_def)
  from fresh have "\<forall>v\<in>set (videos s). \<not> vid v = newId"
    by auto
  then have "List.extract (\<lambda>v. vid v = newId) (videos s1) = Some (videos s, ?v, [])"
    unfolding s1 by (simp add: extract_first)
  moreover from assms(1) obtain st where "statsDoc s1 = Some st"
    unfolding s1 by auto
  ultimately show ?thesis
    by (simp add: getVideo_def)
qed

theorem upload_then_getVideo_witness:
  "statsDoc initialDb \<noteq> None
   \<and> succeeded (snd (upload ''Show'' ''news''
         (Some \<lparr>originalname = ''a.mp4'', mimetype = ''video/mp4'', buffer = [1, 2, 255]\<rparr>) 5 initialDb))
   \<and> snd (getVideo 5 (fst (upload ''Show'' ''news''
         (Some \<lparr>originalname = ''a.mp4'', mimetype = ''video/mp4'', buffer = [1, 2, 255]\<rparr>) 5 initialDb)))
       = Responded \<lparr>status = 200, ctype = Some ''video/mp4'', body = Payload [1, 2, 255]\<rparr>"
proof -
  let ?f = "\<lparr>originalname = ''a.mp4'', mimetype = ''video/mp4'', buffer = [1, 2, 255 :: 8 word]\<rparr>"
  have a: "statsDoc initialDb \<noteq> None"
    by (simp add: initialDb_def initializeStats_def emptyDb_def)
  have b: "succeeded (snd (upload ''Show'' ''news'' (Some ?f) 5 initialDb))"
    by (simp add: upload_def reply_def initialDb_def initializeStats_def emptyDb_def)
  have c: "upload ''Show'' ''news'' (Some ?f) 5 initialDb
             = (fst (upload ''Show'' ''news'' (Some ?f) 5 initialDb),
                snd (upload ''Show'' ''news'' (Some ?f) 5 initialDb))"
    by simp
  from upload_then_getVideo [OF a c b] a b show ?thesis
    by simp
qed

section \<open>Signing up\<close>

text \<open>
  C10. When the input is valid and the new user cannot be saved (as when the email is
  already registered), POST /signup answers 500 and returns the database and the session
  as they were: the Stats document is untouched.
\<close>

theorem signup_user_not_saved:
  assumes "validateInput em pw"
    and "saveNewUser \<lparr>email = em, password = hashedPassword, role = rl, favorites = []\<rparr> (users s) = None"
  shows "signup em pw rl hashedPassword now1 now2 sess s =
           (s, sess, reply 500 (Message ''Error creating user. This email might already be registered.''))"
  using assms by (simp add: signup_def)

theorem signup_user_not_saved_witness:
  "validateInput ''a@b.c'' ''secret''
   \<and> saveNewUser \<lparr>email = ''a@b.c'', password = ''h2'', role = ''user'', favorites = []\<rparr> (users exampleDb) = None
   \<and> \<not> succeeded (snd (snd (signup ''a@b.c'' ''secret'' ''user'' ''h2'' 6 7 None exampleDb)))
   \<and> statsDoc (fst (signup ''a@b.c'' ''secret'' ''user'' ''h2'' 6 7 None exampleDb)) = statsDoc exampleDb"
proof -
  have a: "validateInput ''a@b.c'' ''secret''"
    by code_simp
  have b: "saveNewUser \<lparr>email = ''a@b.c'', password = ''h2'', role = ''user'', favorites = []\<rparr> (users exampleDb) = None"
    by (simp add: saveNewUser_def exampleDb_def)
  from signup_user_not_saved [OF a b, of 6 7 None] a b show ?thesis
    by (simp add: reply_def)
qed

section \<open>Favorites\<close>

lemma printedAs_cast: "castObjectId v = Some i \<Longrightarrow> printedAs j v = (printedAs i v \<and> j = i)"
  by (auto simp: castObjectId_def printedAs_def split: if_splits)

lemma toggle_cast: "castObjectId v = Some i \<Longrightarrow> \<exists>favs1. toggle v favs = Some favs1"
  by (simp add: toggle_def)

lemma toggle_printed:
  assumes "castObjectId v = Some i" and "printedAs i v"
  shows "toggle v favs = Some (if i \<in> set favs then filter (\<lambda>j. j \<noteq> i) favs else favs @ [i])"
proof -
  from assms have p: "printedAs j v = (j = i)" for j
    using printedAs_cast [of v i j] by simp
  then have "list_ex (\<lambda>j. printedAs j v) favs = (i \<in> set favs)"
    by (simp add: list_ex_iff)
  with p assms(1) show ?thesis
    by (simp add: toggle_def)
qed

lemma toggleFavorite_known:
  assumes "favoritesOf (s_email su) s = Some favs" and "toggle videoId favs = Some favs1"
  shows "\<exists>s1. toggleFavorite videoId (Some su) s =
            (s1, Some (su\<lparr>s_favorites := Some favs1\<rparr>), reply 200 (FavoritesBody favs1))
          \<and> favoritesOf (s_email su) s1 = Some favs1
          \<and> videos s1 = videos s \<and> statsDoc s1 = statsDoc s"
proof -
  from assms(1) obtain u where u: "find (\<lambda>u. email u = s_email su) (users s) = Some u" "favorites u = favs"
    by (auto simp: favoritesOf_def)
  then obtain ys zs where e: "List.extract (\<lambda>u. email u = s_email su) (users s) = Some (ys, u, zs)"
    using find_extract by fastforce
  then have "\<forall>y\<in>set ys. \<not> email y = s_email su" "email u = s_email su"
    by (auto simp: extract_Some_iff)
  then have "find (\<lambda>x. email x = s_email su) (ys @ u\<lparr>favorites := favs1\<rparr> # zs)
     = Some (u\<lparr>favorites := favs1\<rparr>)"
    by (intro find_first) auto
  with e u assms(2) show ?thesis
    by (simp add: toggleFavorite_def favoritesOf_def)
qed

lemma toggleFavorite_unknown:
  assumes "favoritesOf (s_email su) s = None"
  shows "toggleFavorite videoId (Some su) s =
           (s, Some su, reply 500 (Message ''Error updating favorites.''))"
  using assms by (simp add: toggleFavorite_def favoritesOf_def find_None_extract)

text \<open>
  Given as the store prints it, an identifier is toggled as lines 165-172 intend: after
  \<open>k\<close> requests it is a favorite exactly when its initial membership, flipped if \<open>k\<close> is
  odd, says so, and the other favorites are as before.
\<close>

lemma toggleTimes_printed:
  assumes "castObjectId v = Some i" and "printedAs i v"
  shows "favoritesOf (s_email su) s = Some favs \<Longrightarrow>
   \<exists>s1 su1 favs1. toggleTimes k v (Some su) s = (s1, Some su1) \<and> s_email su1 = s_email su
      \<and> favoritesOf (s_email su) s1 = Some favs1
      \<and> (i \<in> set favs1) = ((i \<in> set favs) \<noteq> odd k)
      \<and> set favs1 - {i} = set favs - {i}"
proof (induction k arbitrary: s su favs)
  case 0
  then show ?case by simp
next
  case (Suc k)
  let ?favs = "if i \<in> set favs then filter (\<lambda>j. j \<noteq> i) favs else favs @ [i]"
  let ?su = "su\<lparr>s_favorites := Some ?favs\<rparr>"
  have t: "toggle v favs = Some ?favs"
    using assms by (rule toggle_printed)
  from toggleFavorite_known [OF Suc.prems t] obtain s1 where
    s1: "toggleFavorite v (Some su) s = (s1, Some ?su, reply 200 (FavoritesBody ?favs))"
    and f1: "favoritesOf (s_email su) s1 = Some ?favs"
    by blast
  have "favoritesOf (s_email ?su) s1 = Some ?favs"
    using f1 by simp
  from Suc.IH [OF this] obtain s2 su2 favs2 where
    r: "toggleTimes k v (Some ?su) s1 = (s2, Some su2)" "s_email su2 = s_email ?su"
       "favoritesOf (s_email ?su) s2 = Some favs2"
       "(i \<in> set favs2) = ((i \<in> set ?favs) \<noteq> odd k)"
       "set favs2 - {i} = set ?favs - {i}"
    by blast
  have m: "(i \<in> set ?favs) = (i \<notin> set favs)" "set ?favs - {i} = set favs - {i}"
    by auto
  from r s1 show ?case
    unfolding m by auto
qed

text \<open>
  C4 fails on the code. An existing user with no favorites toggles the identifier 10
  twice, giving it in upper case: both requests succeed, neither finds the identifier the
  first one stored, and it ends up in the favorites twice instead of not at all.
\<close>

theorem toggleFavorite_upper_case_twice:
  "castObjectId upperCaseTen = Some 10
   \<and> favoritesOf (s_email exampleSession) exampleDb = Some []
   \<and> succeeded (snd (snd (toggleFavorite upperCaseTen (Some exampleSession) exampleDb)))
   \<and> favoritesOf (s_email exampleSession) (fst (toggleTimes 1 upperCaseTen (Some exampleSession) exampleDb))
        = Some [10]
   \<and> favoritesOf (s_email exampleSession) (fst (toggleTimes 2 upperCaseTen (Some exampleSession) exampleDb))
        = Some [10, 10]"
  by code_simp

text \<open>
  C5 as the specification states it fails: for a session whose user has no document the
  request is answered 500, the answer of the \<open>catch\<close>, not 404.
\<close>

theorem toggleFavorite_missing_user_not_404:
  "favoritesOf (s_email strangerSession) exampleDb = None
   \<and> snd (snd (toggleFavorite ''000000000000000000000001'' (Some strangerSession) exampleDb))
       = reply 500 (Message ''Error updating favorites.'')
   \<and> \<not> notFound (snd (snd (toggleFavorite ''000000000000000000000001'' (Some strangerSession) exampleDb)))"
  by (simp add: toggleFavorite_def favoritesOf_def strangerSession_def exampleDb_def
      extract_Cons_code extract_Nil_code reply_def)

text \<open>
  C5, amended. For a logged-in client and a route string that casts to an identifier
  \<open>i\<close>, whether a video carries it or not: when the user exists the request succeeds, and
  if the string is the print of \<open>i\<close> the favorites lose \<open>i\<close> when they had it and gain it
  when they had not; when the user does not exist the request is answered 500 and nothing
  changes. So it fails exactly when the user does not exist.
\<close>

theorem toggleFavorite_user:
  assumes "castObjectId videoId = Some i"
  shows "(case favoritesOf (s_email su) s of
      Some favs \<Rightarrow>
        succeeded (snd (snd (toggleFavorite videoId (Some su) s)))
        \<and> (printedAs i videoId \<longrightarrow>
             favoritesOf (s_email su) (fst (toggleFavorite videoId (Some su) s))
               = Some (if i \<in> set favs then filter (\<lambda>j. j \<noteq> i) favs else favs @ [i]))
    | None \<Rightarrow>
        \<not> succeeded (snd (snd (toggleFavorite videoId (Some su) s)))
        \<and> toggleFavorite videoId (Some su) s
            = (s, Some su, reply 500 (Message ''Error updating favorites.'')))"
proof (cases "favoritesOf (s_email su) s")
  case None
  then show ?thesis
    by (simp add: toggleFavorite_unknown reply_def)
next
  case (Some favs)
  from toggle_cast [OF assms, of favs] obtain favs1 where t: "toggle videoId favs = Some favs1"
    by blast
  from toggleFavorite_known [OF Some t] have ok: "succeeded (snd (snd (toggleFavorite videoId (Some su) s)))"
    by (auto simp: reply_def)
  have "favoritesOf (s_email su) (fst (toggleFavorite videoId (Some su) s))
               = Some (if i \<in> set favs then filter (\<lambda>j. j \<noteq> i) favs else favs @ [i])"
    if "printedAs i videoId"
    using toggleFavorite_known [OF Some toggle_printed [OF assms that, of favs]] by auto
  with ok Some show ?thesis
    by simp
qed

theorem toggleFavorite_user_witness:
  "castObjectId printOfTen = Some 10 \<and> printedAs 10 printOfTen
   \<and> 10 \<notin> set (map vid (videos exampleDb))
   \<and> favoritesOf (s_email exampleSession) exampleDb = Some []
   \<and> succeeded (snd (snd (toggleFavorite printOfTen (Some exampleSession) exampleDb)))
   \<and> favoritesOf (s_email exampleSession) (fst (toggleFavorite printOfTen (Some exampleSession) exampleDb))
        = Some [10]
   \<and> favoritesOf (s_email strangerSession) exampleDb = None
   \<and> \<not> succeeded (snd (snd (toggleFavorite printOfTen (Some strangerSession) exampleDb)))"
proof -
  have c: "castObjectId printOfTen = Some 10" "printedAs 10 printOfTen"
    by code_simp+
  have a: "favoritesOf (s_email exampleSession) exampleDb = Some []"
    by (simp add: favoritesOf_def exampleSession_def exampleDb_def)
  have b: "favoritesOf (s_email strangerSession) exampleDb = None"
    by (simp add: favoritesOf_def strangerSession_def exampleDb_def)
  have d: "10 \<notin> set (map vid (videos exampleDb))"
    by (simp add: exampleDb_def)
  from toggleFavorite_user [OF c(1), where su = exampleSession and s = exampleDb]
    toggleFavorite_user [OF c(1), where su = strangerSession and s = exampleDb] a b c d
  show ?thesis
    by (simp add: reply_def)
qed

section \<open>Listing videos\<close>

text \<open>
  C8 as the specification states it fails: the documents of a listing carry the fields
  \<open>_id\<close>, \<open>podcastName\<close> and \<open>filename\<close>; the category is not among them.
\<close>

theorem getVideos_has_no_category:
  "fieldNames (snd (getVideos exampleDb)) = [[''_id'', ''podcastName'', ''filename'']]
   \<and> ''category'' \<notin> set (concat (fieldNames (snd (getVideos exampleDb))))"
  by (simp add: getVideos_def fieldNames_def reply_def select_def projection_def
      videoDocument_def exampleDb_def)

text \<open>
  C8, amended. GET /videos returns one document per stored video, GET /videos/:category
  one per stored video of that category, in stored order; each document holds exactly the
  identifier, the podcast name and the file name of its video, never the payload; the
  database is returned as it was.
\<close>

theorem getVideos_listing:
  "getVideos s =
     (s, reply 200 (Docs (map (\<lambda>v. [(''_id'', JId (vid v)), (''podcastName'', JStr (podcastName v)),
                                     (''filename'', JStr (filename v))]) (videos s))))
   \<and> getVideosByCategory cat s =
     (s, reply 200 (Docs (map (\<lambda>v. [(''_id'', JId (vid v)), (''podcastName'', JStr (podcastName v)),
                                     (''filename'', JStr (filename v))])
                            (filter (\<lambda>v. category v = cat) (videos s)))))
   \<and> fieldNames (snd (getVideos s)) = map (\<lambda>v. [''_id'', ''podcastName'', ''filename'']) (videos s)
   \<and> fieldNames (snd (getVideosByCategory cat s))
       = map (\<lambda>v. [''_id'', ''podcastName'', ''filename'']) (filter (\<lambda>v. category v = cat) (videos s))"
  by (simp add: getVideos_def getVideosByCategory_def select_def projection_def videoDocument_def
      fieldNames_def reply_def comp_def)

theorem getVideos_listing_witness:
  "getVideosByCategory ''news'' exampleDb =
     (exampleDb, reply 200 (Docs [[(''_id'', JId 1), (''podcastName'', JStr ''Show''),
                                   (''filename'', JStr ''a.mp4'')]]))
   \<and> getVideosByCategory ''sport'' exampleDb = (exampleDb, reply 200 (Docs []))"
  using getVideos_listing [of exampleDb "''news''"] getVideos_listing [of exampleDb "''sport''"]
  by (simp add: exampleDb_def)

section \<open>The signup histogram\<close>

lemma signup_succeeded:
  assumes "succeeded (snd (snd (signup em pw rl h now1 now2 sess s)))"
  shows "\<exists>us st. validateInput em pw
     \<and> saveNewUser \<lparr>email = em, password = h, role = rl, favorites = []\<rparr> (users s) = Some us
     \<and> statsDoc s = Some st
     \<and> signup em pw rl h now1 now2 sess s =
         (s\<lparr>users := us,
            statsDoc := Some (st\<lparr>totalSignups := totalSignups st + 1,
               signupHistory := updateHistory (isoDate now1) now2 (signupHistory st)\<rparr>)\<rparr>,
          Some \<lparr>s_email = em, s_role = rl, s_favorites = None\<rparr>, reply 200 (RoleBody rl))"
  using assms by (auto simp: signup_def reply_def split: if_splits option.splits)

lemma updateHistory_absent:
  assumes "filter (\<lambda>entry. isoDate (date entry) = d) h = []"
  shows "updateHistory d now h = h @ [\<lparr>date = now, count = 1\<rparr>]"
proof -
  from assms have "List.extract (\<lambda>entry. isoDate (date entry) = d) h = None"
    by (simp add: extract_None_iff filter_empty_conv)
  then show ?thesis
    by (simp add: updateHistory_def)
qed

lemma updateHistory_present:
  assumes "filter (\<lambda>entry. isoDate (date entry) = d) h \<noteq> []"
  shows "\<exists>before e after. h = before @ e # after \<and> isoDate (date e) = d
        \<and> filter (\<lambda>entry. isoDate (date entry) = d) before = []
        \<and> updateHistory d now h = before @ e\<lparr>count := count e + 1\<rparr> # after"
proof -
  from assms have "List.extract (\<lambda>entry. isoDate (date entry) = d) h \<noteq> None"
    by (simp add: extract_None_iff filter_empty_conv)
  then obtain before e after where
    e: "List.extract (\<lambda>entry. isoDate (date entry) = d) h = Some (before, e, after)"
    by auto
  then have "h = before @ e # after" "isoDate (date e) = d"
    "filter (\<lambda>entry. isoDate (date entry) = d) before = []"
    by (auto simp: extract_Some_iff filter_empty_conv)
  with e show ?thesis
    by (auto simp: updateHistory_def)
qed

lemma updateHistory_dates_present:
  "filter (\<lambda>entry. isoDate (date entry) = d) h \<noteq> [] \<Longrightarrow>
     map date (updateHistory d now h) = map date h"
  using updateHistory_present [of d h now] by auto

text \<open>
  When both readings of the clock fall on one calendar date \<open>d\<close>, a successful signup does
  what lines 105-113 announce: it adds one to the signup counter and, when the histogram
  has an entry of that date, adds one to the count of the first such entry and changes
  nothing else in the histogram; when it has none, it appends an entry of that date with
  count 1. Then, from a histogram without an entry of the date, a second successful signup
  on it leaves exactly one entry of that date, with count 2, and one on another date,
  not in the histogram either, leaves one entry with count 1 for each.
\<close>

lemma signup_on_one_date:
  assumes stats: "statsDoc s = Some st"
    and ok1: "succeeded (snd (snd (signup em pw rl h now1 now2 sess s)))"
    and d1: "isoDate now1 = d" "isoDate now2 = d"
  shows "totalSignupsOf (fst (signup em pw rl h now1 now2 sess s)) = totalSignups st + 1
    \<and> (entriesOn d s = [] \<longrightarrow>
          historyOf (fst (signup em pw rl h now1 now2 sess s))
            = signupHistory st @ [\<lparr>date = now2, count = 1\<rparr>])
    \<and> (entriesOn d s \<noteq> [] \<longrightarrow>
          (\<exists>before e after. signupHistory st = before @ e # after \<and> isoDate (date e) = d
              \<and> filter (\<lambda>entry. isoDate (date entry) = d) before = []
              \<and> historyOf (fst (signup em pw rl h now1 now2 sess s))
                   = before @ e\<lparr>count := count e + 1\<rparr> # after))
    \<and> (entriesOn d s = []
          \<and> succeeded (snd (snd (signup em' pw' rl' h' nowc nowd sess' (fst (signup em pw rl h now1 now2 sess s)))))
          \<and> isoDate nowc = d \<and> isoDate nowd = d \<longrightarrow>
          entriesOn d (fst (signup em' pw' rl' h' nowc nowd sess' (fst (signup em pw rl h now1 now2 sess s))))
             = [\<lparr>date = now2, count = 2\<rparr>]
          \<and> totalSignupsOf (fst (signup em' pw' rl' h' nowc nowd sess' (fst (signup em pw rl h now1 now2 sess s))))
             = totalSignups st + 2)
    \<and> (entriesOn d s = [] \<and> entriesOn d' s = [] \<and> d' \<noteq> d
          \<and> succeeded (snd (snd (signup em' pw' rl' h' nowc nowd sess' (fst (signup em pw rl h now1 now2 sess s)))))
          \<and> isoDate nowc = d' \<and> isoDate nowd = d' \<longrightarrow>
          entriesOn d (fst (signup em' pw' rl' h' nowc nowd sess' (fst (signup em pw rl h now1 now2 sess s))))
             = [\<lparr>date = now2, count = 1\<rparr>]
          \<and> entriesOn d' (fst (signup em' pw' rl' h' nowc nowd sess' (fst (signup em pw rl h now1 now2 sess s))))
             = [\<lparr>date = nowd, count = 1\<rparr>])"
proof -
  let ?s1 = "fst (signup em pw rl h now1 now2 sess s)"
  let ?s2 = "fst (signup em' pw' rl' h' nowc nowd sess' ?s1)"
  let ?on = "\<lambda>d. filter (\<lambda>entry. isoDate (date entry) = d)"
  from signup_succeeded [OF ok1] stats d1 obtain us where
    s1: "?s1 = s\<lparr>users := us, statsDoc := Some (st\<lparr>totalSignups := totalSignups st + 1,
               signupHistory := updateHistory d now2 (signupHistory st)\<rparr>)\<rparr>"
    by auto
  have A: "totalSignupsOf ?s1 = totalSignups st + 1"
    by (simp add: s1 totalSignupsOf_def)
  have on: "entriesOn d s = ?on d (signupHistory st)" for d
    by (simp add: entriesOn_def stats)
  have h1: "historyOf ?s1 = updateHistory d now2 (signupHistory st)"
    by (simp add: s1 historyOf_def)
  have B: "entriesOn d s = [] \<longrightarrow> historyOf ?s1 = signupHistory st @ [\<lparr>date = now2, count = 1\<rparr>]"
    by (simp add: h1 on updateHistory_absent)
  have C: "entriesOn d s \<noteq> [] \<longrightarrow>
          (\<exists>before e after. signupHistory st = before @ e # after \<and> isoDate (date e) = d
              \<and> ?on d before = []
              \<and> historyOf ?s1 = before @ e\<lparr>count := count e + 1\<rparr> # after)"
    unfolding h1 on using updateHistory_present [of d "signupHistory st" now2] by blast
  have two: "entriesOn d s = [] \<Longrightarrow>
      succeeded (snd (snd (signup em' pw' rl' h' nowc nowd sess' ?s1))) \<Longrightarrow>
      isoDate nowc = e \<Longrightarrow>
      \<exists>us2. ?s2 = s\<lparr>users := us2, statsDoc := Some (st\<lparr>totalSignups := totalSignups st + 2,
               signupHistory := updateHistory e nowd (signupHistory st @ [\<lparr>date = now2, count = 1\<rparr>])\<rparr>)\<rparr>" for e
  proof -
    assume a: "entriesOn d s = []" and ok2: "succeeded (snd (snd (signup em' pw' rl' h' nowc nowd sess' ?s1)))"
      and e: "isoDate nowc = e"
    from a have "updateHistory d now2 (signupHistory st) = signupHistory st @ [\<lparr>date = now2, count = 1\<rparr>]"
      by (simp add: on updateHistory_absent)
    with s1 have s1': "?s1 = s\<lparr>users := us, statsDoc := Some (st\<lparr>totalSignups := totalSignups st + 1,
               signupHistory := signupHistory st @ [\<lparr>date = now2, count = 1\<rparr>]\<rparr>)\<rparr>"
      by simp
    from signup_succeeded [OF ok2] e show ?thesis
      unfolding s1' by auto
  qed
  have D: "entriesOn d s = []
          \<and> succeeded (snd (snd (signup em' pw' rl' h' nowc nowd sess' ?s1)))
          \<and> isoDate nowc = d \<and> isoDate nowd = d \<longrightarrow>
          entriesOn d ?s2 = [\<lparr>date = now2, count = 2\<rparr>] \<and> totalSignupsOf ?s2 = totalSignups st + 2"
  proof (intro impI, elim conjE)
    assume a: "entriesOn d s = []" and ok2: "succeeded (snd (snd (signup em' pw' rl' h' nowc nowd sess' ?s1)))"
      and e: "isoDate nowc = d" "isoDate nowd = d"
    from two [OF a ok2 e(1)] obtain us2 where
      s2: "?s2 = s\<lparr>users := us2, statsDoc := Some (st\<lparr>totalSignups := totalSignups st + 2,
               signupHistory := updateHistory d nowd (signupHistory st @ [\<lparr>date = now2, count = 1\<rparr>])\<rparr>)\<rparr>"
      by blast
    from a have none: "\<forall>x\<in>set (signupHistory st). \<not> isoDate (date x) = d"
      by (simp add: on filter_empty_conv)
    then have "List.extract (\<lambda>entry. isoDate (date entry) = d) (signupHistory st @ [\<lparr>date = now2, count = 1\<rparr>])
       = Some (signupHistory st, \<lparr>date = now2, count = 1\<rparr>, [])"
      using d1 by (simp add: extract_first)
    then have "updateHistory d nowd (signupHistory st @ [\<lparr>date = now2, count = 1\<rparr>])
       = signupHistory st @ [\<lparr>date = now2, count = 2\<rparr>]"
      by (simp add: updateHistory_def)
    moreover from a have "?on d (signupHistory st) = []"
      by (simp add: on)
    ultimately show "entriesOn d ?s2 = [\<lparr>date = now2, count = 2\<rparr>] \<and> totalSignupsOf ?s2 = totalSignups st + 2"
      using s2 d1 by (simp add: entriesOn_def totalSignupsOf_def)
  qed
  have E: "entriesOn d s = [] \<and> entriesOn d' s = [] \<and> d' \<noteq> d
          \<and> succeeded (snd (snd (signup em' pw' rl' h' nowc nowd sess' ?s1)))
          \<and> isoDate nowc = d' \<and> isoDate nowd = d' \<longrightarrow>
          entriesOn d ?s2 = [\<lparr>date = now2, count = 1\<rparr>] \<and> entriesOn d' ?s2 = [\<lparr>date = nowd, count = 1\<rparr>]"
  proof (intro impI, elim conjE)
    assume a: "entriesOn d s = []" and a': "entriesOn d' s = []" and ne: "d' \<noteq> d"
      and ok2: "succeeded (snd (snd (signup em' pw' rl' h' nowc nowd sess' ?s1)))"
      and e: "isoDate nowc = d'" "isoDate nowd = d'"
    from two [OF a ok2 e(1)] obtain us2 where
      s2: "?s2 = s\<lparr>users := us2, statsDoc := Some (st\<lparr>totalSignups := totalSignups st + 2,
               signupHistory := updateHistory d' nowd (signupHistory st @ [\<lparr>date = now2, count = 1\<rparr>])\<rparr>)\<rparr>"
      by blast
    from a' ne d1 have "?on d' (signupHistory st @ [\<lparr>date = now2, count = 1\<rparr>]) = []"
      by (simp add: on)
    then have "updateHistory d' nowd (signupHistory st @ [\<lparr>date = now2, count = 1\<rparr>])
       = signupHistory st @ [\<lparr>date = now2, count = 1\<rparr>] @ [\<lparr>date = nowd, count = 1\<rparr>]"
      by (simp add: updateHistory_absent)
    moreover from a a' have "?on d (signupHistory st) = []" "?on d' (signupHistory st) = []"
      by (simp_all add: on)
    ultimately show "entriesOn d ?s2 = [\<lparr>date = now2, count = 1\<rparr>] \<and> entriesOn d' ?s2 = [\<lparr>date = nowd, count = 1\<rparr>]"
      using s2 ne d1 e by (simp add: entriesOn_def)
  qed
  from A B C D E show ?thesis
    by blast
qed


text \<open>
  C1 fails on the code. A signup in the initial database reads the clock in the last
  millisecond of day 0 at line 106 and in the first of day 1 at line 112. It succeeds;
  the histogram had no entry of day 0, today's date, and has none afterwards: the entry
  appended is of day 1.
\<close>

theorem signup_over_midnight:
  "isoDate 86399999 = 0 \<and> isoDate 86400000 = 1
   \<and> statsDoc initialDb = Some \<lparr>totalSignups = 0, totalViews = 0, signupHistory = []\<rparr>
   \<and> succeeded (snd (snd (signup ''a@b.c'' ''secret'' ''user'' ''h1'' 86399999 86400000 None initialDb)))
   \<and> entriesOn 0 (fst (signup ''a@b.c'' ''secret'' ''user'' ''h1'' 86399999 86400000 None initialDb)) = []
   \<and> historyOf (fst (signup ''a@b.c'' ''secret'' ''user'' ''h1'' 86399999 86400000 None initialDb))
        = [\<lparr>date = 86400000, count = 1\<rparr>]"
  by code_simp

section \<open>Counting views\<close>

lemma getVideo_succeeded:
  assumes "succeeded (snd (getVideo videoId s))"
  shows "\<exists>before v after st. videos s = before @ v # after \<and> vid v = videoId
      \<and> (\<forall>w\<in>set before. vid w \<noteq> videoId) \<and> statsDoc s = Some st
      \<and> getVideo videoId s =
          (s\<lparr>videos := before @ v\<lparr>views := views v + 1\<rparr> # after,
             statsDoc := Some (st\<lparr>totalViews := totalViews st + 1\<rparr>)\<rparr>,
           Responded \<lparr>status = 200, ctype = Some (contentType v), body = Payload (video v)\<rparr>)"
proof -
  from assms obtain before v after where
    e: "List.extract (\<lambda>v. vid v = videoId) (videos s) = Some (before, v, after)"
    by (cases "List.extract (\<lambda>v. vid v = videoId) (videos s)") (auto simp: getVideo_def)
  with assms obtain st where st: "statsDoc s = Some st"
    by (cases "statsDoc s") (auto simp: getVideo_def reply_def)
  from e have "videos s = before @ v # after" "vid v = videoId" "\<forall>w\<in>set before. vid w \<noteq> videoId"
    by (auto simp: extract_Some_iff)
  moreover from e st have "getVideo videoId s =
          (s\<lparr>videos := before @ v\<lparr>views := views v + 1\<rparr> # after,
             statsDoc := Some (st\<lparr>totalViews := totalViews st + 1\<rparr>)\<rparr>,
           Responded \<lparr>status = 200, ctype = Some (contentType v), body = Payload (video v)\<rparr>)"
    by (simp add: getVideo_def)
  ultimately show ?thesis
    using st by blast
qed

lemma getVideo_totalViews:
  "totalViewsOf (fst (getVideo videoId s)) = totalViewsOf s + (if succeeded (snd (getVideo videoId s)) then 1 else 0)"
  by (auto simp: getVideo_def totalViewsOf_def reply_def Let_def split: option.splits)

lemma signup_totalViews: "totalViewsOf (fst (signup em pw rl h now1 now2 sess s)) = totalViewsOf s"
  by (auto simp: signup_def totalViewsOf_def split: option.splits)

lemma toggleFavorite_statsDoc: "statsDoc (fst (toggleFavorite videoId sess s)) = statsDoc s"
  by (auto simp: toggleFavorite_def Let_def split: option.splits)

lemma upload_statsDoc: "statsDoc (fst (upload name cat reqfile newId s)) = statsDoc s"
  by (auto simp: upload_def split: option.splits)

lemma login_db: "fst (login em matches sess s) = s"
  by (auto simp: login_def split: option.splits)

lemma account_db: "fst (account sess s) = s"
  by (auto simp: account_def split: option.splits)

lemma getVideo_counts:
  assumes "succeeded (snd (getVideo videoId s))"
  shows "(\<exists>n. viewsOfVideo videoId s = Some n \<and> viewsOfVideo videoId (fst (getVideo videoId s)) = Some (n + 1))
     \<and> sumOfVideoViews (fst (getVideo videoId s)) = sumOfVideoViews s + 1"
proof -
  from getVideo_succeeded [OF assms] obtain before v after st where
    a: "videos s = before @ v # after" "vid v = videoId" "\<forall>w\<in>set before. \<not> vid w = videoId"
    and g: "fst (getVideo videoId s) = s\<lparr>videos := before @ v\<lparr>views := views v + 1\<rparr> # after,
             statsDoc := Some (st\<lparr>totalViews := totalViews st + 1\<rparr>)\<rparr>"
    by auto
  from a have "find (\<lambda>v. vid v = videoId) (before @ v # after) = Some v"
    by (intro find_first) auto
  moreover from a have "find (\<lambda>v. vid v = videoId) (before @ v\<lparr>views := views v + 1\<rparr> # after)
       = Some (v\<lparr>views := views v + 1\<rparr>)"
    by (intro find_first) auto
  ultimately show ?thesis
    using a by (simp add: g viewsOfVideo_def sumOfVideoViews_def)
qed

text \<open>With \<open>index.html\<close> under \<open>public\<close>, the static middleware answers GET / and no view is counted.\<close>

lemma home_answered_by_static:
  "home True indexFile s = (s, reply 200 (SentFile ''public/index.html''))"
  by (simp add: home_def)

section \<open>The histogram invariant\<close>

lemma getVideo_history: "historyOf (fst (getVideo videoId s)) = historyOf s"
  by (auto simp: getVideo_def historyOf_def Let_def split: option.splits)

lemma home_history: "historyOf (fst (home staticIndex indexFile s)) = historyOf s"
  by (auto simp: home_def historyOf_def split: option.splits)

lemma signup_history:
  "historyOf (fst (signup em pw rl h now1 now2 sess s)) = historyOf s
   \<or> historyOf (fst (signup em pw rl h now1 now2 sess s)) = updateHistory (isoDate now1) now2 (historyOf s)"
  by (auto simp: signup_def historyOf_def split: option.splits)

lemma historyInv_historyOf:
  "historyInv t s = (distinct (map (\<lambda>entry. isoDate (date entry)) (historyOf s))
                      \<and> (\<forall>entry\<in>set (historyOf s). date entry \<le> t))"
  by (auto simp: historyInv_def onePerDate_def historyDates_def historyOf_def list_all_iff split: option.splits)

lemma isoDate_mono: "a \<le> b \<Longrightarrow> isoDate a \<le> isoDate b"
  by (simp add: isoDate_def zdiv_mono1)

lemma updateHistory_inv:
  assumes dist: "distinct (map (\<lambda>entry. isoDate (date entry)) h)"
    and past: "\<forall>entry\<in>set h. date entry \<le> t"
    and clock: "t \<le> now1" "now1 \<le> now2"
  shows "distinct (map (\<lambda>entry. isoDate (date entry)) (updateHistory (isoDate now1) now2 h))
     \<and> (\<forall>entry\<in>set (updateHistory (isoDate now1) now2 h). date entry \<le> now2)"
proof (cases "filter (\<lambda>entry. isoDate (date entry) = isoDate now1) h = []")
  case True
  then have u: "updateHistory (isoDate now1) now2 h = h @ [\<lparr>date = now2, count = 1\<rparr>]"
    by (rule updateHistory_absent)
  have "isoDate (date entry) < isoDate now2" if "entry \<in> set h" for entry
  proof -
    from that past clock have "isoDate (date entry) \<le> isoDate now1"
      by (intro isoDate_mono) auto
    moreover from that True have "isoDate (date entry) \<noteq> isoDate now1"
      by (auto simp: filter_empty_conv)
    moreover from clock(2) have "isoDate now1 \<le> isoDate now2"
      by (rule isoDate_mono)
    ultimately show ?thesis by linarith
  qed
  then have "isoDate now2 \<notin> set (map (\<lambda>entry. isoDate (date entry)) h)"
    by fastforce
  with dist past clock show ?thesis
    unfolding u by auto
next
  case False
  then have eq: "map date (updateHistory (isoDate now1) now2 h) = map date h"
    by (rule updateHistory_dates_present)
  then have "map isoDate (map date (updateHistory (isoDate now1) now2 h)) = map isoDate (map date h)"
    by simp
  then have m: "map (\<lambda>entry. isoDate (date entry)) (updateHistory (isoDate now1) now2 h)
        = map (\<lambda>entry. isoDate (date entry)) h"
    by (simp add: comp_def)
  from eq have "set (map date (updateHistory (isoDate now1) now2 h)) = set (map date h)"
    by simp
  then have st: "date ` set (updateHistory (isoDate now1) now2 h) = date ` set h"
    by simp
  have "\<forall>entry\<in>set (updateHistory (isoDate now1) now2 h). date entry \<le> now2"
  proof
    fix entry
    assume "entry \<in> set (updateHistory (isoDate now1) now2 h)"
    then have "date entry \<in> date ` set h"
      using st by blast
    then obtain e where "e \<in> set h" "date e = date entry"
      by auto
    with past clock show "date entry \<le> now2"
      by force
  qed
  with m dist show ?thesis
    by simp
qed

lemma historyInv_later: "historyInv t s \<Longrightarrow> t \<le> t' \<Longrightarrow> historyInv t' s"
  by (auto simp: historyInv_historyOf)

lemma historyInv_step:
  assumes "historyInv t s" and "clockOrdered t [c]"
  shows "historyInv (lastReading t [c]) (dbAfter c s)"
proof (cases c)
  case (Pair sess r)
  show ?thesis
  proof (cases r)
    case (Signup em pw rl h now1 now2)
    with Pair assms(2) have clock: "t \<le> now1" "now1 \<le> now2"
      by simp_all
    from assms(1) have inv: "distinct (map (\<lambda>entry. isoDate (date entry)) (historyOf s))"
      "\<forall>entry\<in>set (historyOf s). date entry \<le> t"
      by (simp_all add: historyInv_historyOf)
    from updateHistory_inv [OF inv clock] inv clock signup_history [of em pw rl h now1 now2 sess s]
    have "historyInv now2 (fst (signup em pw rl h now1 now2 sess s))"
      unfolding historyInv_historyOf by force
    with Pair Signup show ?thesis
      by (simp add: dbAfter_def)
  next
    case (GetVideo videoId)
    with Pair assms(1) show ?thesis
      by (simp add: dbAfter_def historyInv_historyOf getVideo_history split_beta)
  next
    case (Home staticIndex indexFile)
    with Pair assms(1) show ?thesis
      by (simp add: dbAfter_def historyInv_historyOf home_history split_beta)
  next
    case (ToggleFavorite videoId)
    with Pair assms(1) show ?thesis
      by (simp add: dbAfter_def historyInv_historyOf historyOf_def toggleFavorite_statsDoc)
  next
    case (Upload name cat reqfile newId)
    with Pair assms(1) show ?thesis
      by (simp add: dbAfter_def historyInv_historyOf historyOf_def upload_statsDoc split_beta)
  qed (use assms(1) in \<open>simp_all add: Pair dbAfter_def login_db account_db getVideos_def getVideosByCategory_def getStats_def\<close>)
qed

lemma clockOrdered_Cons:
  "clockOrdered t (c # cs) = (clockOrdered t [c] \<and> clockOrdered (lastReading t [c]) cs)"
  by (cases "(t, c # cs)" rule: clockOrdered.cases) auto

lemma lastReading_Cons: "lastReading t (c # cs) = lastReading (lastReading t [c]) cs"
  by (cases "(t, c # cs)" rule: lastReading.cases) auto

lemma historyInv_run:
  "historyInv t s \<Longrightarrow> clockOrdered t cs \<Longrightarrow> historyInv (lastReading t cs) (run cs s)"
proof (induction cs arbitrary: t s)
  case Nil
  then show ?case by simp
next
  case (Cons c cs)
  from Cons.prems(2) have c: "clockOrdered t [c]" "clockOrdered (lastReading t [c]) cs"
    by (simp_all add: clockOrdered_Cons [of t c cs])
  from historyInv_step [OF Cons.prems(1) c(1)] have "historyInv (lastReading t [c]) (dbAfter c s)" .
  from Cons.IH [OF this c(2)] show ?case
    by (simp add: lastReading_Cons [of t c cs])
qed

text \<open>
  With requests handled one after the other and readings of the clock that never go
  backwards, the histogram never has a date twice.
\<close>

lemma one_entry_per_date_ordered_clock:
  assumes "clockOrdered t cs"
  shows "onePerDate (run cs initialDb)
     \<and> (historyInv t s \<longrightarrow> historyInv (lastReading t cs) (run cs s) \<and> onePerDate (run cs s))"
proof -
  have "historyInv t initialDb"
    by (simp add: historyInv_historyOf historyOf_def initialDb_def initializeStats_def emptyDb_def)
  from historyInv_run [OF this assms] historyInv_run [OF _ assms, of s] show ?thesis
    by (auto simp: historyInv_def)
qed

text \<open>
  C6 fails on the code. Two signups, handled one after the other from the initial
  database, each read the clock in the last millisecond of day 0 at line 106 and in the
  first of day 1 at line 112. After the first the histogram has one entry, of day 1, and
  the invariant holds; the second looks for an entry of day 0, finds none and appends
  another entry of day 1, and the invariant is broken.
\<close>

theorem midnight_signups_one_date_twice:
  "historyDates initialDb = []
   \<and> historyDates (run [midnightSignup] initialDb) = [1]
   \<and> onePerDate (run [midnightSignup] initialDb)
   \<and> historyDates (dbAfter midnightSignupAgain (run [midnightSignup] initialDb)) = [1, 1]
   \<and> historyDates (run [midnightSignup, midnightSignupAgain] initialDb) = [1, 1]
   \<and> \<not> onePerDate (run [midnightSignup, midnightSignupAgain] initialDb)"
  by code_simp

section \<open>Concurrent views\<close>

text \<open>A request scheduled alone does what the handler does.\<close>

lemma interleave_alone:
  "interleave [0, 0, 0, 0] [AtFindById videoId] s = ([Finished (snd (getVideo videoId s))], fst (getVideo videoId s))"
proof (cases "find (\<lambda>v. vid v = videoId) (videos s)")
  case None
  then show ?thesis
    by (simp add: getVideo_def find_None_extract)
next
  case (Some v)
  then obtain ys zs where e: "List.extract (\<lambda>v. vid v = videoId) (videos s) = Some (ys, v, zs)"
    using find_extract by fastforce
  then have "vid v = videoId"
    by (simp add: extract_Some_iff)
  with e have sv: "saveViews (v\<lparr>views := views v + 1\<rparr>) (videos s) = ys @ v\<lparr>views := views v + 1\<rparr> # zs"
    by (simp add: saveViews_def)
  show ?thesis
  proof (cases "statsDoc s")
    case None
    with Some e sv show ?thesis
      by (simp add: getVideo_def)
  next
    case (Some st)
    with \<open>find (\<lambda>v. vid v = videoId) (videos s) = Some v\<close> e sv show ?thesis
      by (simp add: getVideo_def)
  qed
qed

text \<open>
  C9 fails on the code. Two concurrent requests for a video with no views, each answered
  200: both read the counter before either saves it, both save 1, and the counter ends at
  1, not 2.
\<close>

theorem concurrent_getVideo_loses_a_view:
  "viewsOfVideo 1 exampleDb = Some 0
   \<and> fst (interleave bothReadFirst twoViewers exampleDb) =
       [Finished (Responded \<lparr>status = 200, ctype = Some ''video/mp4'', body = Payload [1, 2, 255]\<rparr>),
        Finished (Responded \<lparr>status = 200, ctype = Some ''video/mp4'', body = Payload [1, 2, 255]\<rparr>)]
   \<and> viewsOfVideo 1 (snd (interleave bothReadFirst twoViewers exampleDb)) = Some 1"
  by code_simp

text \<open>
  C7 fails on the code. Two concurrent requests for one video, the second reading the
  video after the first has saved it, but each reading the Stats document before either
  saves it: both are answered 200, the counter of the video grows by 2, and \<open>totalViews\<close>
  grows by 1.
\<close>

theorem concurrent_getVideo_loses_a_total_view:
  "totalViewsOf exampleDb = 0 \<and> viewsOfVideo 1 exampleDb = Some 0
   \<and> fst (interleave bothReadStatsFirst twoViewers exampleDb) =
       [Finished (Responded \<lparr>status = 200, ctype = Some ''video/mp4'', body = Payload [1, 2, 255]\<rparr>),
        Finished (Responded \<lparr>status = 200, ctype = Some ''video/mp4'', body = Payload [1, 2, 255]\<rparr>)]
   \<and> viewsOfVideo 1 (snd (interleave bothReadStatsFirst twoViewers exampleDb)) = Some 2
   \<and> totalViewsOf (snd (interleave bothReadStatsFirst twoViewers exampleDb)) = 1"
  by code_simp

end
